theory Spec2Isabelle
  imports Main "HOL-Library.Sublist"
begin

section \<open>Values, exceptions and Python's conversions\<close>

text \<open>
  The server (kg-frontend/src/server.py) moves three kinds of scalar between the store,
  the handlers and the wire: integers, strings and null. A Python dict with string keys
  is an association list. Strings are lists of 8-bit characters, read as the code points
  below 256.
\<close>

datatype val = VNull | VInt int | VStr string

type_synonym dict = "(string \<times> val) list"

text \<open>
  The exceptions that travel through the handlers. \<open>HTTPException\<close> carries the status
  code and the detail; \<open>RequestValidationError\<close> is what the framework raises when a
  declared parameter constraint fails, before the handler runs.
\<close>

datatype exc =
    HTTPException int string
  | RequestValidationError string
  | ValueError string
  | KeyError string
  | TypeError string
  | UnicodeDecodeError string
  | OSError string
  | Neo4jError string

text \<open>The status the framework answers with when the exception leaves a handler.\<close>

fun status_code :: "exc \<Rightarrow> int" where
  "status_code (HTTPException c d) = c"
| "status_code (RequestValidationError m) = 422"
| "status_code e = 500"

subsection \<open>\<open>str\<close> of an integer\<close>

definition digit_char :: "nat \<Rightarrow> char" where
  "digit_char d = ''0123456789'' ! d"

fun nat_digits :: "nat \<Rightarrow> nat list" where
  "nat_digits n = (if n < 10 then [n] else nat_digits (n div 10) @ [n mod 10])"

declare nat_digits.simps [simp del]

definition str_nat :: "nat \<Rightarrow> string" where
  "str_nat n = map digit_char (nat_digits n)"

definition str_int :: "int \<Rightarrow> string" where
  "str_int i = (if i < 0 then CHR ''-'' # str_nat (nat (- i)) else str_nat (nat i))"

subsection \<open>\<open>repr\<close> and \<open>str\<close> of a string, \<open>str\<close> of an exception\<close>

definition hex_char :: "nat \<Rightarrow> char" where
  "hex_char d = ''0123456789abcdef'' ! d"

definition printable :: "char \<Rightarrow> bool" where
  "printable c = (let n = (of_char c :: nat) in (32 \<le> n \<and> n \<le> 126) \<or> (161 \<le> n \<and> n \<noteq> 173))"

definition repr_char :: "char \<Rightarrow> char \<Rightarrow> string" where
  "repr_char q c =
     (if c = q \<or> c = CHR 0x5C then [CHR 0x5C, c]
      else if c = CHR 0x09 then [CHR 0x5C, CHR ''t'']
      else if c = CHR 0x0A then [CHR 0x5C, CHR ''n'']
      else if c = CHR 0x0D then [CHR 0x5C, CHR ''r'']
      else if printable c then [c]
      else [CHR 0x5C, CHR ''x'', hex_char ((of_char c :: nat) div 16), hex_char ((of_char c :: nat) mod 16)])"

definition py_repr :: "string \<Rightarrow> string" where
  "py_repr s =
     (let q = (if CHR 0x27 \<in> set s \<and> CHR 0x22 \<notin> set s then CHR 0x22 else CHR 0x27)
      in q # concat (map (repr_char q) s) @ [q])"

fun py_str :: "val \<Rightarrow> string" where
  "py_str VNull = ''None''"
| "py_str (VInt i) = str_int i"
| "py_str (VStr s) = s"

text \<open>
  \<open>str(e)\<close>. The framework's HTTPException prints as \<open>status: detail\<close>; the other
  exceptions print their message, a KeyError the \<open>repr\<close> of the key.
\<close>

fun str_exc :: "exc \<Rightarrow> string" where
  "str_exc (HTTPException c d) = str_int c @ '': '' @ d"
| "str_exc (RequestValidationError m) = m"
| "str_exc (ValueError m) = m"
| "str_exc (KeyError k) = py_repr k"
| "str_exc (TypeError m) = m"
| "str_exc (UnicodeDecodeError m) = m"
| "str_exc (OSError m) = m"
| "str_exc (Neo4jError m) = m"

subsection \<open>\<open>int\<close> of a string\<close>

text \<open>
  Python's \<open>int(s)\<close> for a string (CPython 3.11). Blanks at both ends are dropped:
  tab to carriage return, the space and, above 127, U+0085 and U+00A0; the code points 28
  to 31 are not. One sign is allowed, then decimal digits with single underscores between
  digits. A well-formed run of more than 4300 digits is refused (the interpreter's default
  limit) before what follows the run is looked at. Everything else raises ValueError as
  an invalid literal, its \<open>repr\<close> cut at 200 characters.
\<close>

definition is_space :: "char \<Rightarrow> bool" where
  "is_space c = (let n = (of_char c :: nat) in (9 \<le> n \<and> n \<le> 13) \<or> n = 32 \<or> n = 133 \<or> n = 160)"

definition strip :: "string \<Rightarrow> string" where
  "strip s = rev (dropWhile is_space (rev (dropWhile is_space s)))"

definition digit_val :: "char \<Rightarrow> nat option" where
  "digit_val c = (let n = (of_char c :: nat) in if 48 \<le> n \<and> n \<le> 57 then Some (n - 48) else None)"

definition is_digit :: "char \<Rightarrow> bool" where
  "is_digit c = (digit_val c \<noteq> None)"

fun digit_run :: "nat \<Rightarrow> string \<Rightarrow> nat option" where
  "digit_run a [] = Some a"
| "digit_run a [c] = (case digit_val c of None \<Rightarrow> None | Some v \<Rightarrow> Some (10 * a + v))"
| "digit_run a (c # d # cs) =
     (if c = CHR ''_'' then
        (case digit_val d of None \<Rightarrow> None | Some v \<Rightarrow> digit_run (10 * a + v) cs)
      else (case digit_val c of None \<Rightarrow> None | Some v \<Rightarrow> digit_run (10 * a + v) (d # cs)))"

definition digits_value :: "string \<Rightarrow> nat option" where
  "digits_value s =
     (case s of [] \<Rightarrow> None
      | c # cs \<Rightarrow> (case digit_val c of None \<Rightarrow> None | Some v \<Rightarrow> digit_run v cs))"

definition unsigned :: "string \<Rightarrow> string" where
  "unsigned t =
     (case t of [] \<Rightarrow> [] | c # cs \<Rightarrow> if c = CHR ''-'' \<or> c = CHR ''+'' then cs else t)"

definition signed_value :: "string \<Rightarrow> int option" where
  "signed_value t =
     (case t of [] \<Rightarrow> None
      | c # cs \<Rightarrow>
          if c = CHR ''-'' then map_option (\<lambda>n. - int n) (digits_value cs)
          else if c = CHR ''+'' then map_option int (digits_value cs)
          else map_option int (digits_value t))"

definition int_max_str_digits :: nat where
  "int_max_str_digits = 4300"

definition python_int :: "string \<Rightarrow> exc + int" where
  "python_int s =
     (let t = strip s;
          run = takeWhile (\<lambda>c. is_digit c \<or> c = CHR ''_'') (unsigned t);
          n = length (filter is_digit run)
      in if digits_value run \<noteq> None \<and> int_max_str_digits < n
         then Inl (ValueError
                (''Exceeds the limit ('' @ str_nat int_max_str_digits
                 @ '' digits) for integer string conversion: value has '' @ str_nat n
                 @ '' digits; use sys.set_int_max_str_digits() to increase the limit''))
         else (case signed_value t of
                 None \<Rightarrow>
                   Inl (ValueError
                     (''invalid literal for int() with base 10: '' @ take 200 (py_repr s)))
               | Some i \<Rightarrow> Inr i))"

text \<open>
  The strings \<open>int\<close> accepts, said directly: once the blanks at both ends and one sign
  are taken away, what is left is one or more groups of digits joined by single
  underscores, with at most 4300 digits in all.
\<close>

fun split_on :: "char \<Rightarrow> string \<Rightarrow> string list" where
  "split_on sep [] = [[]]"
| "split_on sep (c # cs) =
     (if c = sep then [] # split_on sep cs
      else (case split_on sep cs of [] \<Rightarrow> [[c]] | g # gs \<Rightarrow> (c # g) # gs))"

definition int_literal :: "string \<Rightarrow> bool" where
  "int_literal s =
     (let b = unsigned (strip s)
      in (\<forall>g \<in> set (split_on CHR ''_'' b). g \<noteq> [] \<and> (\<forall>c \<in> set g. is_digit c))
         \<and> length (filter is_digit b) \<le> int_max_str_digits)"

text \<open>A decimal integer as it is commonly written: digits only, after an optional minus.\<close>

definition decimal_integer :: "string \<Rightarrow> bool" where
  "decimal_integer s =
     (let b = (case s of [] \<Rightarrow> [] | c # cs \<Rightarrow> if c = CHR ''-'' then cs else s)
      in b \<noteq> [] \<and> (\<forall>c \<in> set b. is_digit c))"

section \<open>External processes\<close>

text \<open>
  \<open>subprocess.run(command, capture_output=True, text=True, check=True)\<close> has three
  outcomes before the return code is looked at. The program cannot be spawned (an OSError,
  or a ValueError for an argument with a NUL byte). Or the program ends, but a captured
  stream holds bytes that are not text in the locale's encoding: decoding is strict and
  raises UnicodeDecodeError, whatever the return code. Or the program ends and both
  streams decode: then there is a return code, and the standard output and standard error
  as decoded. What the program does is the operating system's part: a function of the
  command and of the world outside the server, which it may change. The host keeps the
  commands handed to \<open>subprocess.run\<close>, oldest first.
\<close>

datatype proc_outcome = Spawn_failed exc | Undecodable int exc | Exited int string string

type_synonym 'w os = "string list \<Rightarrow> 'w \<Rightarrow> proc_outcome \<times> 'w"

record 'w host =
  invocations :: "string list list"
  ext :: 'w

text \<open>
  In text mode the decoded streams have their line ends translated:
  \<open>data.replace("\r\n", "\n").replace("\r", "\n")\<close>.
\<close>

fun replace_crlf :: "string \<Rightarrow> string" where
  "replace_crlf [] = []"
| "replace_crlf [c] = [c]"
| "replace_crlf (c # d # cs) =
     (if c = CHR 0x0D \<and> d = CHR 0x0A then CHR 0x0A # replace_crlf cs
      else c # replace_crlf (d # cs))"

definition translate_newlines :: "string \<Rightarrow> string" where
  "translate_newlines data = map (\<lambda>c. if c = CHR 0x0D then CHR 0x0A else c) (replace_crlf data)"

definition subprocess_run :: "'w os \<Rightarrow> string list \<Rightarrow> 'w host \<Rightarrow> proc_outcome \<times> 'w host" where
  "subprocess_run os command h =
     (case os command (ext h) of
        (r, w') \<Rightarrow>
          ((case r of
              Exited rc out err \<Rightarrow> Exited rc (translate_newlines out) (translate_newlines err)
            | _ \<Rightarrow> r),
           \<lparr>invocations = invocations h @ [command], ext = w'\<rparr>))"

text \<open>
  \<open>run_command\<close> catches CalledProcessError only (a non-zero return code under
  \<open>check=True\<close>); a failure to spawn or to decode passes through.
\<close>

definition run_command :: "'w os \<Rightarrow> string list \<Rightarrow> 'w host \<Rightarrow> (exc + string) \<times> 'w host" where
  "run_command os command h =
     (case subprocess_run os command h of
        (Spawn_failed e, h') \<Rightarrow> (Inl e, h')
      | (Undecodable rc e, h') \<Rightarrow> (Inl e, h')
      | (Exited rc out err, h') \<Rightarrow>
          if rc = 0 then (Inr out, h')
          else (Inl (HTTPException 500 (''Command failed: '' @ err)), h'))"

text \<open>
  Every handler ends in \<open>except Exception as e: raise HTTPException(500, ctx + str(e))\<close>.
  HTTPException is an Exception, so one raised inside the \<open>try\<close> is caught as well.
\<close>

definition except_Exception :: "string \<Rightarrow> exc + 'a \<Rightarrow> exc + 'a" where
  "except_Exception ctx r =
     (case r of Inl e \<Rightarrow> Inl (HTTPException 500 (ctx @ str_exc e)) | Inr v \<Rightarrow> Inr v)"

section \<open>Worker control\<close>

record BuilderParams =
  seedConcept :: string
  maxNodes :: int
  timeout :: int
  randomRelationships :: int
  concurrency :: int

record EnricherParams =
  batchSize :: int
  interval :: int
  maxRelationships :: int
  concurrency :: int

definition builder_command :: "BuilderParams \<Rightarrow> string list" where
  "builder_command params =
     [''/bin/sh'', ''/app/start-builder.sh'',
      ''--seed'', seedConcept params,
      ''--max-nodes'', str_int (maxNodes params),
      ''--timeout'', str_int (timeout params),
      ''--random-relationships'', str_int (randomRelationships params),
      ''--concurrency'', str_int (BuilderParams.concurrency params)]"

definition start_builder :: "'w os \<Rightarrow> BuilderParams \<Rightarrow> 'w host \<Rightarrow> (exc + dict) \<times> 'w host" where
  "start_builder os params h =
     (case run_command os (builder_command params) h of
        (r, h') \<Rightarrow>
          (except_Exception ''Error starting builder: ''
             (case r of
                Inl e \<Rightarrow> Inl e
              | Inr output \<Rightarrow>
                  Inr [(''status'', VStr ''success''),
                       (''message'', VStr ''Builder started successfully''),
                       (''output'', VStr output)]),
           h'))"

definition stop_builder :: "'w os \<Rightarrow> 'w host \<Rightarrow> (exc + dict) \<times> 'w host" where
  "stop_builder os h =
     (case run_command os [''/bin/sh'', ''/app/stop-builder.sh''] h of
        (r, h') \<Rightarrow>
          (except_Exception ''Error stopping builder: ''
             (case r of
                Inl e \<Rightarrow> Inl e
              | Inr output \<Rightarrow>
                  Inr [(''status'', VStr ''success''),
                       (''message'', VStr ''Builder stopped successfully''),
                       (''output'', VStr output)]),
           h'))"

definition enricher_command :: "EnricherParams \<Rightarrow> string list" where
  "enricher_command params =
     [''/bin/sh'', ''/app/start-enricher.sh'',
      ''--batch-size'', str_int (batchSize params),
      ''--interval'', str_int (interval params),
      ''--max-relationships'', str_int (maxRelationships params),
      ''--concurrency'', str_int (EnricherParams.concurrency params)]"

definition start_enricher :: "'w os \<Rightarrow> EnricherParams \<Rightarrow> 'w host \<Rightarrow> (exc + dict) \<times> 'w host" where
  "start_enricher os params h =
     (case run_command os (enricher_command params) h of
        (r, h') \<Rightarrow>
          (except_Exception ''Error starting enricher: ''
             (case r of
                Inl e \<Rightarrow> Inl e
              | Inr output \<Rightarrow>
                  Inr [(''status'', VStr ''success''),
                       (''message'', VStr ''Enricher started successfully''),
                       (''output'', VStr output)]),
           h'))"

definition stop_enricher :: "'w os \<Rightarrow> 'w host \<Rightarrow> (exc + dict) \<times> 'w host" where
  "stop_enricher os h =
     (case run_command os [''/bin/sh'', ''/app/stop-enricher.sh''] h of
        (r, h') \<Rightarrow>
          (except_Exception ''Error stopping enricher: ''
             (case r of
                Inl e \<Rightarrow> Inl e
              | Inr output \<Rightarrow>
                  Inr [(''status'', VStr ''success''),
                       (''message'', VStr ''Enricher stopped successfully''),
                       (''output'', VStr output)]),
           h'))"

subsection \<open>The worker scripts\<close>

datatype worker_state = Stopped | Running

record workers =
  builder :: worker_state
  enricher :: worker_state

text \<open>
  Modelled from the spec: the four shell scripts (/app/start-builder.sh,
  /app/stop-builder.sh, /app/start-enricher.sh, /app/stop-enricher.sh) are not among the
  sources. The spec (4.4) gives each worker two states; a successful start takes it to
  running; stop signals the process to terminate, and stopping a worker that is already
  stopped is accepted and returns success. The text a script prints is not specified and
  is a parameter.
\<close>

definition worker_scripts :: "string \<Rightarrow> workers os" where
  "worker_scripts out command w =
     (if take 2 command = [''/bin/sh'', ''/app/start-builder.sh'']
        then (Exited 0 out [], w\<lparr>builder := Running\<rparr>)
      else if command = [''/bin/sh'', ''/app/stop-builder.sh'']
        then (Exited 0 out [], w\<lparr>builder := Stopped\<rparr>)
      else if take 2 command = [''/bin/sh'', ''/app/start-enricher.sh'']
        then (Exited 0 out [], w\<lparr>enricher := Running\<rparr>)
      else if command = [''/bin/sh'', ''/app/stop-enricher.sh'']
        then (Exited 0 out [], w\<lparr>enricher := Stopped\<rparr>)
      else (Spawn_failed (OSError ''not a worker script''), w))"

section \<open>The graph store\<close>

text \<open>
  The store is the external graph database. A node has the store's integer id, labels and
  a \<open>name\<close> property (null when absent); an edge joins two node ids and has a type.
\<close>

record node =
  node_id :: int
  labels :: "string list"
  name :: val

record edge =
  edge_source :: int
  edge_target :: int
  edge_type :: string

record graph =
  store_nodes :: "node list"
  store_edges :: "edge list"

definition is_concept :: "node \<Rightarrow> bool" where
  "is_concept n = (''Concept'' \<in> set (labels n))"

subsection \<open>The statements the server issues\<close>

text \<open>
  Each statement is a triple-quoted literal: a line break, the lines at sixteen spaces,
  and twelve spaces before the closing quotes.
\<close>

definition block :: "string list \<Rightarrow> string" where
  "block ls =
     CHR 0x0A # concat (map (\<lambda>l. replicate 16 CHR '' '' @ l @ [CHR 0x0A]) ls)
       @ replicate 12 CHR '' ''"

definition nodes_query :: string where
  "nodes_query = block [''MATCH (n:Concept)'', ''RETURN id(n) AS id, n.name AS name'']"

definition links_query :: string where
  "links_query =
     block [''MATCH (a:Concept)-[r]->(b:Concept)'',
            ''RETURN id(a) AS source, id(b) AS target, type(r) AS type'']"

definition search_query :: string where
  "search_query =
     block [''MATCH (n:Concept)'', ''WHERE n.name CONTAINS $query'',
            ''RETURN id(n) AS id, n.name AS name'', ''LIMIT 10'']"

definition create_template :: string where
  "create_template =
     block [''MATCH (a:Concept), (b:Concept)'',
            ''WHERE id(a) = $source AND id(b) = $target'',
            ''CREATE (a)-[r:`{}`]->(b)'',
            ''RETURN id(a) AS source, id(b) AS target, type(r) AS type'']"

definition count_concepts_query :: string where
  "count_concepts_query = block [''MATCH (n:Concept)'', ''RETURN count(n) AS count'']"

definition count_relationships_query :: string where
  "count_relationships_query = block [''MATCH ()-[r]->()'', ''RETURN count(r) AS count'']"

text \<open>
  \<open>template.format(x)\<close> for a template whose only braces are replacement fields
  \<open>{}\<close>: the argument is spliced in as it is.
\<close>

fun format1 :: "string \<Rightarrow> string \<Rightarrow> string" where
  "format1 [] x = []"
| "format1 [c] x = [c]"
| "format1 (c # d # cs) x =
     (if c = CHR ''{'' \<and> d = CHR ''}'' then x @ format1 cs x else c # format1 (d # cs) x)"

subsection \<open>How the store reads a statement\<close>

text \<open>
  The store reads the text it is given. A relationship type written between backticks
  ends at the first backtick that is not doubled; a doubled backtick stands for one
  backtick of the name. The six shapes below are the statements of this server; any
  other text is some other statement of the query language.
\<close>

datatype stmt =
    Q_nodes | Q_links | Q_search | Q_create string
  | Q_count_concepts | Q_count_relationships | Q_other

fun strip_prefix :: "string \<Rightarrow> string \<Rightarrow> string option" where
  "strip_prefix [] s = Some s"
| "strip_prefix (p # ps) [] = None"
| "strip_prefix (p # ps) (c # cs) = (if p = c then strip_prefix ps cs else None)"

fun quoted_name :: "string \<Rightarrow> (string \<times> string) option" where
  "quoted_name [] = None"
| "quoted_name [c] = (if c = CHR 0x60 then Some ([], []) else None)"
| "quoted_name (c # d # cs) =
     (if c = CHR 0x60 then
        (if d = CHR 0x60 then map_option (apfst ((#) CHR 0x60)) (quoted_name cs)
         else Some ([], d # cs))
      else map_option (apfst ((#) c)) (quoted_name (d # cs)))"

definition create_head :: string where
  "create_head =
     CHR 0x0A # replicate 16 CHR '' '' @ ''MATCH (a:Concept), (b:Concept)''
       @ CHR 0x0A # replicate 16 CHR '' '' @ ''WHERE id(a) = $source AND id(b) = $target''
       @ CHR 0x0A # replicate 16 CHR '' '' @ ''CREATE (a)-[r:`''"

definition create_tail :: string where
  "create_tail =
     '']->(b)''
       @ CHR 0x0A # replicate 16 CHR '' ''
       @ ''RETURN id(a) AS source, id(b) AS target, type(r) AS type''
       @ CHR 0x0A # replicate 12 CHR '' ''"

definition read_statement :: "string \<Rightarrow> stmt" where
  "read_statement s =
     (if s = nodes_query then Q_nodes
      else if s = links_query then Q_links
      else if s = search_query then Q_search
      else if s = count_concepts_query then Q_count_concepts
      else if s = count_relationships_query then Q_count_relationships
      else (case strip_prefix create_head s of
              None \<Rightarrow> Q_other
            | Some r \<Rightarrow>
                (case quoted_name r of
                   None \<Rightarrow> Q_other
                 | Some (ty, rest) \<Rightarrow> if rest = create_tail then Q_create ty else Q_other)))"

text \<open>The relationship type the store reads in the type position of a statement.\<close>

definition edge_type_token :: "string \<Rightarrow> string option" where
  "edge_type_token s =
     (case strip_prefix create_head s of
        None \<Rightarrow> None
      | Some r \<Rightarrow> map_option fst (quoted_name r))"

subsection \<open>What the statements do\<close>

definition node_row :: "node \<Rightarrow> dict" where
  "node_row n = [(''id'', VInt (node_id n)), (''name'', name n)]"

definition link_row :: "int \<Rightarrow> int \<Rightarrow> string \<Rightarrow> dict" where
  "link_row s t ty = [(''source'', VInt s), (''target'', VInt t), (''type'', VStr ty)]"

text \<open>The matches of \<open>(a)-[r]->(b)\<close> with both end nodes satisfying \<open>P\<close>.\<close>

definition pattern_matches :: "(node \<Rightarrow> bool) \<Rightarrow> graph \<Rightarrow> (node \<times> edge \<times> node) list" where
  "pattern_matches P g =
     concat (map (\<lambda>e.
       concat (map (\<lambda>a.
         map (\<lambda>b. (a, e, b))
           (filter (\<lambda>n. node_id n = edge_target e \<and> P n) (store_nodes g)))
         (filter (\<lambda>n. node_id n = edge_source e \<and> P n) (store_nodes g))))
       (store_edges g))"

text \<open>\<open>x CONTAINS q\<close> is true for two strings only; on null or a number it is null.\<close>

fun contains :: "val \<Rightarrow> val \<Rightarrow> bool" where
  "contains (VStr s) (VStr q) = sublist q s"
| "contains x y = False"

definition endpoint_pairs :: "val \<Rightarrow> val \<Rightarrow> graph \<Rightarrow> (node \<times> node) list" where
  "endpoint_pairs sv tv g =
     concat (map (\<lambda>a.
       map (\<lambda>b. (a, b))
         (filter (\<lambda>n. is_concept n \<and> VInt (node_id n) = tv) (store_nodes g)))
       (filter (\<lambda>n. is_concept n \<and> VInt (node_id n) = sv) (store_nodes g)))"

definition cypher ::
  "(string \<Rightarrow> dict \<Rightarrow> graph \<Rightarrow> (exc + dict list) \<times> graph) \<Rightarrow>
     string \<Rightarrow> dict \<Rightarrow> graph \<Rightarrow> (exc + dict list) \<times> graph" where
  "cypher other s params g =
     (case read_statement s of
        Q_nodes \<Rightarrow> (Inr (map node_row (filter is_concept (store_nodes g))), g)
      | Q_links \<Rightarrow>
          (Inr (map (\<lambda>(a, e, b). link_row (node_id a) (node_id b) (edge_type e))
                  (pattern_matches is_concept g)), g)
      | Q_search \<Rightarrow>
          (case map_of params ''query'' of
             None \<Rightarrow> (Inl (Neo4jError ''Expected parameter(s): query''), g)
           | Some q \<Rightarrow>
               (Inr (take 10 (map node_row
                  (filter (\<lambda>n. is_concept n \<and> contains (name n) q) (store_nodes g)))), g))
      | Q_count_concepts \<Rightarrow>
          (Inr [[(''count'', VInt (int (length (filter is_concept (store_nodes g)))))]], g)
      | Q_count_relationships \<Rightarrow>
          (Inr [[(''count'', VInt (int (length (pattern_matches (\<lambda>n. True) g))))]], g)
      | Q_create ty \<Rightarrow>
          (case (map_of params ''source'', map_of params ''target'') of
             (Some sv, Some tv) \<Rightarrow>
               if ty = [] \<or> CHR 0x00 \<in> set ty
               then (Inl (Neo4jError ''Token names cannot be empty or contain any null-bytes''), g)
               else (Inr (map (\<lambda>(a, b). link_row (node_id a) (node_id b) ty)
                            (endpoint_pairs sv tv g)),
                     g\<lparr>store_edges := store_edges g
                          @ map (\<lambda>(a, b). \<lparr>edge_source = node_id a, edge_target = node_id b,
                                            edge_type = ty\<rparr>)
                              (endpoint_pairs sv tv g)\<rparr>)
           | _ \<Rightarrow> (Inl (Neo4jError ''Expected parameter(s): source, target''), g))
      | Q_other \<Rightarrow> other s params g)"

subsection \<open>The driver\<close>

text \<open>
  The database as the server reaches it: the graph, what the store does with a statement
  outside the six shapes, and the failures of the connection still to come, one entry for
  each coming \<open>session.run\<close> (\<open>Some m\<close>: the driver raises with message \<open>m\<close>).
\<close>

record db =
  content :: graph
  other_cypher :: "string \<Rightarrow> dict \<Rightarrow> graph \<Rightarrow> (exc + dict list) \<times> graph"
  faults :: "string option list"

definition pending_fault :: "db \<Rightarrow> string option" where
  "pending_fault d = (case faults d of Some m # fs \<Rightarrow> Some m | _ \<Rightarrow> None)"

definition session_run :: "string \<Rightarrow> dict \<Rightarrow> db \<Rightarrow> (exc + dict list) \<times> db" where
  "session_run s params d =
     (case pending_fault d of
        Some m \<Rightarrow> (Inl (Neo4jError m), d\<lparr>faults := tl (faults d)\<rparr>)
      | None \<Rightarrow>
          (case cypher (other_cypher d) s params (content d) of
             (r, g') \<Rightarrow> (r, d\<lparr>content := g', faults := tl (faults d)\<rparr>)))"

text \<open>\<open>result.single()\<close>: the first record, or None when there is none.\<close>

definition single :: "dict list \<Rightarrow> dict option" where
  "single result = (case result of [] \<Rightarrow> None | r # rs \<Rightarrow> Some r)"

text \<open>\<open>rec[key]\<close> raises KeyError for a missing key.\<close>

definition item :: "dict \<Rightarrow> string \<Rightarrow> exc + val" where
  "item r k = (case map_of r k of None \<Rightarrow> Inl (KeyError k) | Some v \<Rightarrow> Inr v)"

text \<open>A list comprehension whose body may raise: the first exception ends it.\<close>

fun collect :: "('a \<Rightarrow> exc + 'b) \<Rightarrow> 'a list \<Rightarrow> exc + 'b list" where
  "collect f [] = Inr []"
| "collect f (x # xs) =
     (case f x of
        Inl e \<Rightarrow> Inl e
      | Inr y \<Rightarrow> (case collect f xs of Inl e \<Rightarrow> Inl e | Inr ys \<Rightarrow> Inr (y # ys)))"

section \<open>Graph handlers\<close>

record RelationshipCreate =
  source :: string
  target :: string
  type :: string

record GraphData =
  nodes :: "dict list"
  links :: "dict list"

definition node_view :: "dict \<Rightarrow> exc + dict" where
  "node_view r =
     (case item r ''id'' of
        Inl e \<Rightarrow> Inl e
      | Inr i \<Rightarrow>
          (case item r ''name'' of
             Inl e \<Rightarrow> Inl e
           | Inr n \<Rightarrow> Inr [(''id'', VStr (py_str i)), (''name'', n)]))"

definition link_view :: "dict \<Rightarrow> exc + dict" where
  "link_view r =
     (case item r ''source'' of
        Inl e \<Rightarrow> Inl e
      | Inr s \<Rightarrow>
          (case item r ''target'' of
             Inl e \<Rightarrow> Inl e
           | Inr t \<Rightarrow>
               (case item r ''type'' of
                  Inl e \<Rightarrow> Inl e
                | Inr ty \<Rightarrow>
                    Inr [(''source'', VStr (py_str s)), (''target'', VStr (py_str t)),
                         (''type'', ty)])))"

definition get_graph_body :: "db \<Rightarrow> (exc + GraphData) \<times> db" where
  "get_graph_body d =
     (case session_run nodes_query [] d of
        (Inl e, d1) \<Rightarrow> (Inl e, d1)
      | (Inr nodes_result, d1) \<Rightarrow>
          (case collect node_view nodes_result of
             Inl e \<Rightarrow> (Inl e, d1)
           | Inr ns \<Rightarrow>
               (case session_run links_query [] d1 of
                  (Inl e, d2) \<Rightarrow> (Inl e, d2)
                | (Inr links_result, d2) \<Rightarrow>
                    (case collect link_view links_result of
                       Inl e \<Rightarrow> (Inl e, d2)
                     | Inr ls \<Rightarrow> (Inr \<lparr>nodes = ns, links = ls\<rparr>, d2)))))"

definition get_graph_data :: "db \<Rightarrow> (exc + GraphData) \<times> db" where
  "get_graph_data d =
     (case get_graph_body d of
        (r, d') \<Rightarrow> (except_Exception ''Error fetching graph data: '' r, d'))"

text \<open>
  \<open>q: str = Query(..., min_length=1)\<close>: the framework answers 422 for a shorter \<open>q\<close>
  and does not call the handler.
\<close>

definition search_concepts_body :: "string \<Rightarrow> db \<Rightarrow> (exc + dict list) \<times> db" where
  "search_concepts_body q d =
     (case session_run search_query [(''query'', VStr q)] d of
        (Inl e, d1) \<Rightarrow> (Inl e, d1)
      | (Inr result, d1) \<Rightarrow> (collect node_view result, d1))"

definition search_concepts :: "string \<Rightarrow> db \<Rightarrow> (exc + dict list) \<times> db" where
  "search_concepts q d =
     (if length q < 1
      then (Inl (RequestValidationError ''String should have at least 1 character''), d)
      else (case search_concepts_body q d of
              (r, d') \<Rightarrow> (except_Exception ''Error searching concepts: '' r, d')))"

text \<open>
  In \<open>create_relationship\<close> the statement text is built first, then \<open>int(source)\<close> and
  \<open>int(target)\<close> for the parameters, and only then is the statement run. The 404 for an
  empty result is raised inside the \<open>try\<close>.
\<close>

definition create_relationship_body :: "RelationshipCreate \<Rightarrow> db \<Rightarrow> (exc + dict) \<times> db" where
  "create_relationship_body relationship d =
     (case python_int (source relationship) of
        Inl e \<Rightarrow> (Inl e, d)
      | Inr s \<Rightarrow>
          (case python_int (target relationship) of
             Inl e \<Rightarrow> (Inl e, d)
           | Inr t \<Rightarrow>
               (case session_run (format1 create_template (type relationship))
                       [(''source'', VInt s), (''target'', VInt t)] d of
                  (Inl e, d1) \<Rightarrow> (Inl e, d1)
                | (Inr result, d1) \<Rightarrow>
                    (case single result of
                       None \<Rightarrow> (Inl (HTTPException 404 ''Concepts not found''), d1)
                     | Some r \<Rightarrow> (link_view r, d1)))))"

definition create_relationship :: "RelationshipCreate \<Rightarrow> db \<Rightarrow> (exc + dict) \<times> db" where
  "create_relationship relationship d =
     (case create_relationship_body relationship d of
        (r, d') \<Rightarrow> (except_Exception ''Error creating relationship: '' r, d'))"




subsection \<open>The complete snapshot\<close>

text \<open>
  The node list and the link list of a graph in the wire format: every Concept node, and
  every edge from a Concept node to a Concept node.
\<close>

definition snapshot_nodes :: "graph \<Rightarrow> dict list" where
  "snapshot_nodes g =
     map (\<lambda>n. [(''id'', VStr (str_int (node_id n))), (''name'', name n)])
       (filter is_concept (store_nodes g))"

definition snapshot_links :: "graph \<Rightarrow> dict list" where
  "snapshot_links g =
     map (\<lambda>(a, e, b).
            [(''source'', VStr (str_int (node_id a))), (''target'', VStr (str_int (node_id b))),
             (''type'', VStr (edge_type e))])
       (pattern_matches is_concept g)"

section \<open>Sample worlds\<close>

text \<open>Concrete inputs on which the theorems below are exercised.\<close>

definition physics_params :: BuilderParams where
  "physics_params =
     \<lparr>seedConcept = ''Physics'', maxNodes = 50, timeout = 60, randomRelationships = 5,
      concurrency = 2\<rparr>"

definition batch_params :: EnricherParams where
  "batch_params = \<lparr>batchSize = 10, interval = 30, maxRelationships = 100, concurrency = 2\<rparr>"

definition ready_os :: "unit os" where
  "ready_os command w = (Exited 0 ''started'' [], w)"

definition failing_os :: "unit os" where
  "failing_os command w = (Exited 1 [] ''docker: not found'', w)"

definition missing_shell_os :: "unit os" where
  "missing_shell_os command w = (Spawn_failed (OSError ''[Errno 2] No such file or directory''), w)"

definition decode_error :: exc where
  "decode_error =
     UnicodeDecodeError
       (CHR 0x27 # ''utf-8'' @ CHR 0x27
        # '' codec can'' @ CHR 0x27
        # ''t decode byte 0xff in position 0: invalid start byte'')"

definition garbled_os :: "unit os" where
  "garbled_os command w = (Undecodable 0 decode_error, w)"

definition crlf_os :: "unit os" where
  "crlf_os command w = (Exited 1 [] [CHR ''a'', CHR 0x0D, CHR 0x0A, CHR ''b''], w)"

definition fresh_host :: "unit host" where
  "fresh_host = \<lparr>invocations = [], ext = ()\<rparr>"

definition idle_host :: "workers host" where
  "idle_host = \<lparr>invocations = [], ext = \<lparr>builder = Stopped, enricher = Stopped\<rparr>\<rparr>"

definition sample_graph :: graph where
  "sample_graph =
     \<lparr>store_nodes =
        [\<lparr>node_id = 3, labels = [''Concept''], name = VStr ''Physics''\<rparr>,
         \<lparr>node_id = 7, labels = [''Concept''], name = VStr ''Chemistry''\<rparr>,
         \<lparr>node_id = 9, labels = [''Draft''], name = VNull\<rparr>],
      store_edges =
        [\<lparr>edge_source = 3, edge_target = 7, edge_type = ''RELATED_TO''\<rparr>,
         \<lparr>edge_source = 3, edge_target = 9, edge_type = ''MENTIONS''\<rparr>]\<rparr>"

definition refuse_other :: "string \<Rightarrow> dict \<Rightarrow> graph \<Rightarrow> (exc + dict list) \<times> graph" where
  "refuse_other s params g = (Inl (Neo4jError ''Invalid input''), g)"

definition sample_db :: db where
  "sample_db = \<lparr>content = sample_graph, other_cypher = refuse_other, faults = []\<rparr>"

definition flaky_db :: db where
  "flaky_db = sample_db\<lparr>faults := [None, Some ''connection reset'']\<rparr>"

definition missing_target :: RelationshipCreate where
  "missing_target = \<lparr>source = ''3'', target = ''99'', type = ''RELATED_TO''\<rparr>"

definition not_a_number :: RelationshipCreate where
  "not_a_number = \<lparr>source = ''abc'', target = ''7'', type = ''RELATED_TO''\<rparr>"

definition underscored_source :: RelationshipCreate where
  "underscored_source = \<lparr>source = ''0_3'', target = ''7'', type = ''RELATED_TO''\<rparr>"

definition crafted_type :: RelationshipCreate where
  "crafted_type = \<lparr>source = ''3'', target = ''7'', type = ''R`]->(b) DETACH DELETE a //''\<rparr>"

section \<open>Worker control: properties\<close>

lemma str_int_500: "str_int 500 = ''500''" by code_simp

lemma translate_newlines_plain: "CHR 0x0D \<notin> set s \<Longrightarrow> translate_newlines s = s"
proof -
  assume "CHR 0x0D \<notin> set s"
  then have "replace_crlf s = s"
    by (induction s rule: replace_crlf.induct) auto
  with \<open>CHR 0x0D \<notin> set s\<close> show ?thesis
    by (auto simp: translate_newlines_def intro!: map_idI)
qed

lemma run_command_cases:
  "fst (run_command os command h) =
     (case fst (os command (ext h)) of
        Spawn_failed e \<Rightarrow> Inl e
      | Undecodable rc e \<Rightarrow> Inl e
      | Exited rc out err \<Rightarrow>
          if rc = 0 then Inr (translate_newlines out)
          else Inl (HTTPException 500 (''Command failed: '' @ translate_newlines err)))"
  by (simp add: run_command_def subprocess_run_def split: prod.splits proc_outcome.splits)

lemma run_command_invocations:
  "invocations (snd (run_command os command h)) = invocations h @ [command]"
  by (simp add: run_command_def subprocess_run_def split: prod.splits proc_outcome.splits)

lemma run_command_ext:
  "ext (snd (run_command os command h)) = snd (os command (ext h))"
  by (simp add: run_command_def subprocess_run_def split: prod.splits proc_outcome.splits)

lemma start_builder_fst:
  "fst (start_builder os p h) =
     except_Exception ''Error starting builder: ''
       (case fst (run_command os (builder_command p) h) of
          Inl e \<Rightarrow> Inl e
        | Inr output \<Rightarrow>
            Inr [(''status'', VStr ''success''),
                 (''message'', VStr ''Builder started successfully''),
                 (''output'', VStr output)])"
  by (simp add: start_builder_def split: prod.splits)

lemma start_enricher_fst:
  "fst (start_enricher os p h) =
     except_Exception ''Error starting enricher: ''
       (case fst (run_command os (enricher_command p) h) of
          Inl e \<Rightarrow> Inl e
        | Inr output \<Rightarrow>
            Inr [(''status'', VStr ''success''),
                 (''message'', VStr ''Enricher started successfully''),
                 (''output'', VStr output)])"
  by (simp add: start_enricher_def split: prod.splits)

text \<open>
  C7, as stated, has every launch script that exits zero answered with success, and the
  detail of a failed launch hold the script's standard error as it was written. A script
  that exits zero after printing a byte that is not text is answered with status 500;
  and a standard error \<open>a\r\nb\<close> reaches the detail as \<open>a\nb\<close>, so the detail does not
  contain it.
\<close>

theorem undecodable_output_fails_start:
  "fst (garbled_os (builder_command physics_params) (ext fresh_host)) = Undecodable 0 decode_error
   \<and> fst (start_builder garbled_os physics_params fresh_host) =
       Inl (HTTPException 500 (''Error starting builder: '' @ str_exc decode_error))
   \<and> fst (start_builder crlf_os physics_params fresh_host) =
       Inl (HTTPException 500
         (''Error starting builder: 500: Command failed: a'' @ CHR 0x0A # ''b''))
   \<and> \<not> sublist [CHR ''a'', CHR 0x0D, CHR 0x0A, CHR ''b'']
         (''Error starting builder: 500: Command failed: a'' @ CHR 0x0A # ''b'')"
proof -
  have "translate_newlines [CHR ''a'', CHR 0x0D, CHR 0x0A, CHR ''b''] = [CHR ''a'', CHR 0x0A, CHR ''b'']"
    by (simp add: translate_newlines_def)
  moreover have "\<not> sublist [CHR ''a'', CHR 0x0D, CHR 0x0A, CHR ''b'']
         (''Error starting builder: 500: Command failed: a'' @ CHR 0x0A # ''b'')"
    by code_simp
  ultimately show ?thesis
    by (simp add: start_builder_fst run_command_cases except_Exception_def str_int_500
        garbled_os_def crlf_os_def fresh_host_def)
qed

text \<open>
  C7, amended. A start call fails with status 500 when the launch cannot be spawned, when
  a captured stream of the script is not text in the locale's encoding (whatever the
  return code), or when the script ends with a non-zero return code. In the last case
  the detail ends with the script's standard error as decoded, its line ends translated
  to \<open>\n\<close>: unchanged when it holds no carriage return. A script that ends with return
  code zero and whose streams decode gives the success response, its standard output
  (line ends translated) in \<open>output\<close>. This holds for the builder and for the enricher.
\<close>

theorem start_outcomes:
  "(fst (os (builder_command p) (ext h)) = Spawn_failed e \<longrightarrow>
      fst (start_builder os p h) =
        Inl (HTTPException 500 (''Error starting builder: '' @ str_exc e)))
   \<and> (fst (os (builder_command p) (ext h)) = Undecodable rc e \<longrightarrow>
      fst (start_builder os p h) =
        Inl (HTTPException 500 (''Error starting builder: '' @ str_exc e)))
   \<and> (fst (os (builder_command p) (ext h)) = Exited rc out err \<and> rc \<noteq> 0 \<longrightarrow>
      fst (start_builder os p h) =
        Inl (HTTPException 500
          (''Error starting builder: 500: Command failed: '' @ translate_newlines err))
      \<and> sublist (translate_newlines err)
          (''Error starting builder: 500: Command failed: '' @ translate_newlines err)
      \<and> (CHR 0x0D \<notin> set err \<longrightarrow> translate_newlines err = err))
   \<and> (fst (os (builder_command p) (ext h)) = Exited 0 out err \<longrightarrow>
      fst (start_builder os p h) =
        Inr [(''status'', VStr ''success''),
             (''message'', VStr ''Builder started successfully''),
             (''output'', VStr (translate_newlines out))]
      \<and> (CHR 0x0D \<notin> set out \<longrightarrow> translate_newlines out = out))
   \<and> (fst (os (enricher_command q) (ext h)) = Spawn_failed e \<longrightarrow>
      fst (start_enricher os q h) =
        Inl (HTTPException 500 (''Error starting enricher: '' @ str_exc e)))
   \<and> (fst (os (enricher_command q) (ext h)) = Undecodable rc e \<longrightarrow>
      fst (start_enricher os q h) =
        Inl (HTTPException 500 (''Error starting enricher: '' @ str_exc e)))
   \<and> (fst (os (enricher_command q) (ext h)) = Exited rc out err \<and> rc \<noteq> 0 \<longrightarrow>
      fst (start_enricher os q h) =
        Inl (HTTPException 500
          (''Error starting enricher: 500: Command failed: '' @ translate_newlines err))
      \<and> sublist (translate_newlines err)
          (''Error starting enricher: 500: Command failed: '' @ translate_newlines err)
      \<and> (CHR 0x0D \<notin> set err \<longrightarrow> translate_newlines err = err))
   \<and> (fst (os (enricher_command q) (ext h)) = Exited 0 out err \<longrightarrow>
      fst (start_enricher os q h) =
        Inr [(''status'', VStr ''success''),
             (''message'', VStr ''Enricher started successfully''),
             (''output'', VStr (translate_newlines out))]
      \<and> (CHR 0x0D \<notin> set out \<longrightarrow> translate_newlines out = out))"
  by (simp add: start_builder_fst start_enricher_fst run_command_cases except_Exception_def
      str_int_500 sublist_Cons_right translate_newlines_plain)

theorem start_outcomes_witness:
  "fst (start_builder failing_os physics_params fresh_host) =
     Inl (HTTPException 500 ''Error starting builder: 500: Command failed: docker: not found'')
   \<and> fst (start_builder ready_os physics_params fresh_host) =
     Inr [(''status'', VStr ''success''),
          (''message'', VStr ''Builder started successfully''),
          (''output'', VStr ''started'')]
   \<and> fst (start_enricher missing_shell_os batch_params fresh_host) =
     Inl (HTTPException 500 ''Error starting enricher: [Errno 2] No such file or directory'')
   \<and> fst (start_enricher garbled_os batch_params fresh_host) =
     Inl (HTTPException 500 (''Error starting enricher: '' @ str_exc decode_error))"
  using start_outcomes [of failing_os physics_params fresh_host "OSError []" 1 "[]" "''docker: not found''" batch_params]
    start_outcomes [of ready_os physics_params fresh_host "OSError []" 0 "''started''" "[]" batch_params]
    start_outcomes [of missing_shell_os physics_params fresh_host "OSError ''[Errno 2] No such file or directory''" 0 "[]" "[]" batch_params]
    start_outcomes [of garbled_os physics_params fresh_host decode_error 0 "[]" "[]" batch_params]
  by (simp add: failing_os_def ready_os_def missing_shell_os_def garbled_os_def)

lemma start_builder_invocations:
  "invocations (snd (start_builder os p h)) = invocations h @ [builder_command p]"
  by (simp add: start_builder_def case_prod_beta run_command_invocations)

lemma start_enricher_invocations:
  "invocations (snd (start_enricher os q h)) = invocations h @ [enricher_command q]"
  by (simp add: start_enricher_def case_prod_beta run_command_invocations)

text \<open>
  C3, as stated, would have a second start of a worker that is already started leave the
  launch script alone. On a host where the script exits zero, the first start succeeds
  and the script has run twice after the second start.
\<close>

theorem second_start_launches_again:
  "fst (start_builder ready_os physics_params fresh_host) =
     Inr [(''status'', VStr ''success''),
          (''message'', VStr ''Builder started successfully''),
          (''output'', VStr ''started'')]
   \<and> count_list
       (invocations (snd (start_builder ready_os physics_params
          (snd (start_builder ready_os physics_params fresh_host)))))
       (builder_command physics_params) = 2"
  by (simp add: start_builder_invocations start_builder_fst run_command_cases
      except_Exception_def ready_os_def fresh_host_def translate_newlines_plain)

text \<open>
  C3, amended. The server holds no running or stopped state for a worker: every start
  call hands the launch command to the operating system once, whatever came before, so
  two successive starts are two launches. How many instances then run is the launch
  script's doing.
\<close>

theorem every_start_runs_the_launch_script:
  "invocations (snd (start_builder os p2 (snd (start_builder os p1 h)))) =
     invocations h @ [builder_command p1, builder_command p2]
   \<and> invocations (snd (start_enricher os q2 (snd (start_enricher os q1 h)))) =
     invocations h @ [enricher_command q1, enricher_command q2]"
  by (simp add: start_builder_invocations start_enricher_invocations)

lemma stop_builder_fst:
  "fst (stop_builder os h) =
     except_Exception ''Error stopping builder: ''
       (case fst (run_command os [''/bin/sh'', ''/app/stop-builder.sh''] h) of
          Inl e \<Rightarrow> Inl e
        | Inr output \<Rightarrow>
            Inr [(''status'', VStr ''success''),
                 (''message'', VStr ''Builder stopped successfully''),
                 (''output'', VStr output)])"
  by (simp add: stop_builder_def split: prod.splits)

lemma stop_enricher_fst:
  "fst (stop_enricher os h) =
     except_Exception ''Error stopping enricher: ''
       (case fst (run_command os [''/bin/sh'', ''/app/stop-enricher.sh''] h) of
          Inl e \<Rightarrow> Inl e
        | Inr output \<Rightarrow>
            Inr [(''status'', VStr ''success''),
                 (''message'', VStr ''Enricher stopped successfully''),
                 (''output'', VStr output)])"
  by (simp add: stop_enricher_def split: prod.splits)

lemma stop_builder_ext:
  "ext (snd (stop_builder os h)) = snd (os [''/bin/sh'', ''/app/stop-builder.sh''] (ext h))"
  by (simp add: stop_builder_def case_prod_beta run_command_ext)

lemma stop_enricher_ext:
  "ext (snd (stop_enricher os h)) = snd (os [''/bin/sh'', ''/app/stop-enricher.sh''] (ext h))"
  by (simp add: stop_enricher_def case_prod_beta run_command_ext)

lemma stop_builder_script:
  "worker_scripts out [''/bin/sh'', ''/app/stop-builder.sh''] w =
     (Exited 0 out [], w\<lparr>builder := Stopped\<rparr>)"
  by (simp add: worker_scripts_def)

lemma stop_enricher_script:
  "worker_scripts out [''/bin/sh'', ''/app/stop-enricher.sh''] w =
     (Exited 0 out [], w\<lparr>enricher := Stopped\<rparr>)"
  by (simp add: worker_scripts_def)

text \<open>
  C5. With the stop scripts as the spec describes them, stopping a worker that is stopped
  returns the success response, leaves the worker stopped, and a second stop answers as
  the first did. The \<open>output\<close> field is what the script printed, its line ends
  translated as text mode does: the printed text itself when it holds no carriage return.
\<close>

theorem stop_of_stopped_worker_succeeds:
  "(builder (ext h) = Stopped \<longrightarrow>
      fst (stop_builder (worker_scripts out) h) =
        Inr [(''status'', VStr ''success''),
             (''message'', VStr ''Builder stopped successfully''),
             (''output'', VStr (translate_newlines out))]
      \<and> ext (snd (stop_builder (worker_scripts out) h)) = ext h
      \<and> fst (stop_builder (worker_scripts out) (snd (stop_builder (worker_scripts out) h))) =
          fst (stop_builder (worker_scripts out) h)
      \<and> (CHR 0x0D \<notin> set out \<longrightarrow>
          fst (stop_builder (worker_scripts out) h) =
            Inr [(''status'', VStr ''success''),
                 (''message'', VStr ''Builder stopped successfully''),
                 (''output'', VStr out)]))
   \<and> (enricher (ext h) = Stopped \<longrightarrow>
      fst (stop_enricher (worker_scripts out) h) =
        Inr [(''status'', VStr ''success''),
             (''message'', VStr ''Enricher stopped successfully''),
             (''output'', VStr (translate_newlines out))]
      \<and> ext (snd (stop_enricher (worker_scripts out) h)) = ext h
      \<and> fst (stop_enricher (worker_scripts out) (snd (stop_enricher (worker_scripts out) h))) =
          fst (stop_enricher (worker_scripts out) h)
      \<and> (CHR 0x0D \<notin> set out \<longrightarrow>
          fst (stop_enricher (worker_scripts out) h) =
            Inr [(''status'', VStr ''success''),
                 (''message'', VStr ''Enricher stopped successfully''),
                 (''output'', VStr out)]))"
proof -
  have b: "w\<lparr>builder := Stopped\<rparr> = w" if "builder w = Stopped" for w :: workers
    using that by simp
  have e: "w\<lparr>enricher := Stopped\<rparr> = w" if "enricher w = Stopped" for w :: workers
    using that by simp
  show ?thesis
    by (simp add: stop_builder_fst stop_enricher_fst stop_builder_ext stop_enricher_ext
        run_command_cases stop_builder_script stop_enricher_script except_Exception_def b e
        translate_newlines_plain)
qed

theorem stop_of_stopped_worker_succeeds_witness:
  "builder (ext idle_host) = Stopped
   \<and> fst (stop_builder (worker_scripts ''stopped'') idle_host) =
        Inr [(''status'', VStr ''success''),
             (''message'', VStr ''Builder stopped successfully''),
             (''output'', VStr ''stopped'')]
   \<and> enricher (ext idle_host) = Stopped
   \<and> fst (stop_enricher (worker_scripts ''stopped'') idle_host) =
        Inr [(''status'', VStr ''success''),
             (''message'', VStr ''Enricher stopped successfully''),
             (''output'', VStr ''stopped'')]"
  using stop_of_stopped_worker_succeeds [of idle_host "''stopped''"]
  by (simp add: idle_host_def translate_newlines_plain)

section \<open>Decimal strings\<close>

text \<open>
  \<open>str\<close> of an integer is its decimal string: the reader of \<open>int\<close> gives the integer
  back, and so does \<open>int\<close> itself up to its limit of 4300 digits.
\<close>

lemma digit_val_digit_char: "d < 10 \<Longrightarrow> digit_val (digit_char d) = Some d"
proof -
  assume "d < 10"
  then have "d \<in> {0, 1, 2, 3, 4, 5, 6, 7, 8, 9}" by auto
  then show ?thesis
    by (auto simp: digit_char_def digit_val_def)
qed

lemma digit_val_plain:
  "digit_val c = Some v \<Longrightarrow>
     c \<noteq> CHR ''_'' \<and> c \<noteq> CHR ''-'' \<and> c \<noteq> CHR ''+'' \<and> \<not> is_space c"
  by (auto simp: digit_val_def is_space_def Let_def split: if_splits)

lemma digit_run_step:
  "c \<noteq> CHR ''_'' \<Longrightarrow> digit_val c = Some v \<Longrightarrow> digit_run a (c # cs) = digit_run (10 * a + v) cs"
  by (cases cs) simp_all

lemma digit_run_digits:
  "\<forall>d \<in> set ds. d < 10 \<Longrightarrow>
     digit_run a (map digit_char ds) = Some (foldl (\<lambda>a d. 10 * a + d) a ds)"
proof (induction ds arbitrary: a)
  case Nil
  then show ?case by simp
next
  case (Cons d ds)
  then have v: "digit_val (digit_char d) = Some d" by (simp add: digit_val_digit_char)
  with digit_val_plain have "digit_char d \<noteq> CHR ''_''" by blast
  with v Cons show ?case by (simp add: digit_run_step)
qed

lemma nat_digits_small: "\<forall>d \<in> set (nat_digits n). d < 10"
  by (induction n rule: nat_digits.induct) (subst nat_digits.simps, auto)

lemma nat_digits_nonempty: "nat_digits n \<noteq> []"
  by (subst nat_digits.simps) simp

lemma nat_digits_value: "foldl (\<lambda>a d. 10 * a + d) 0 (nat_digits n) = n"
proof (induction n rule: nat_digits.induct)
  case (1 n)
  show ?case
  proof (cases "n < 10")
    case True
    then show ?thesis by (subst nat_digits.simps) simp
  next
    case False
    with 1 show ?thesis by (subst nat_digits.simps) simp
  qed
qed

lemma digits_value_str_nat: "digits_value (str_nat n) = Some n"
proof -
  obtain d ds where ds: "nat_digits n = d # ds"
    using nat_digits_nonempty [of n] by (cases "nat_digits n") auto
  have small: "d < 10" "\<forall>x \<in> set ds. x < 10"
    using nat_digits_small [of n] ds by auto
  have "foldl (\<lambda>a d. 10 * a + d) d ds = n"
    using nat_digits_value [of n] ds by simp
  with small show ?thesis
    by (simp add: digits_value_def str_nat_def ds digit_val_digit_char digit_run_digits)
qed

lemma str_nat_digit: "c \<in> set (str_nat n) \<Longrightarrow> is_digit c"
  using nat_digits_small [of n] digit_val_digit_char
  by (fastforce simp: str_nat_def is_digit_def)

lemma str_nat_plain:
  "c \<in> set (str_nat n) \<Longrightarrow> c \<noteq> CHR ''-'' \<and> c \<noteq> CHR ''+'' \<and> \<not> is_space c"
  using str_nat_digit [of c n] digit_val_plain [of c] by (auto simp: is_digit_def)

lemma str_nat_nonempty: "str_nat n \<noteq> []"
  by (simp add: str_nat_def nat_digits_nonempty)

lemma strip_plain:
  assumes "s \<noteq> []" "\<not> is_space (hd s)" "\<not> is_space (last s)"
  shows "strip s = s"
proof -
  from assms have a: "dropWhile is_space s = s" by (cases s) simp_all
  from assms have "rev s \<noteq> []" "\<not> is_space (hd (rev s))" by (simp_all add: hd_rev)
  then have "dropWhile is_space (rev s) = rev s" by (cases "rev s") simp_all
  with a show ?thesis by (simp add: strip_def)
qed

lemma is_space_minus: "\<not> is_space CHR ''-''"
  by (simp add: is_space_def)

lemma unsigned_str_int: "unsigned (str_int i) = str_nat (nat \<bar>i\<bar>)"
proof (cases "i < 0")
  case True
  then show ?thesis by (simp add: unsigned_def str_int_def abs_if)
next
  case False
  obtain c cs where s: "str_nat (nat i) = c # cs"
    using str_nat_nonempty [of "nat i"] by (cases "str_nat (nat i)") auto
  with str_nat_plain [of c "nat i"] False show ?thesis
    by (simp add: unsigned_def str_int_def abs_if)
qed

lemma signed_value_str_int: "signed_value (str_int i) = Some i"
proof (cases "i < 0")
  case True
  then show ?thesis by (simp add: signed_value_def str_int_def digits_value_str_nat)
next
  case False
  obtain c cs where s: "str_nat (nat i) = c # cs"
    using str_nat_nonempty [of "nat i"] by (cases "str_nat (nat i)") auto
  have "digits_value (c # cs) = Some (nat i)"
    using digits_value_str_nat [of "nat i"] s by simp
  with str_nat_plain [of c "nat i"] s False show ?thesis
    by (simp add: signed_value_def str_int_def)
qed

lemma strip_str_int: "strip (str_int i) = str_int i"
proof (cases "i < 0")
  case True
  let ?n = "nat (- i)"
  have "\<not> is_space (last (CHR ''-'' # str_nat ?n))"
    using str_nat_plain [of "last (str_nat ?n)" ?n] str_nat_nonempty [of ?n] by simp
  then have "strip (CHR ''-'' # str_nat ?n) = CHR ''-'' # str_nat ?n"
    by (intro strip_plain) (simp_all add: is_space_minus)
  with True show ?thesis by (simp add: str_int_def)
next
  case False
  let ?n = "nat i"
  have "\<not> is_space (hd (str_nat ?n))" "\<not> is_space (last (str_nat ?n))"
    using str_nat_plain [of "hd (str_nat ?n)" ?n] str_nat_plain [of "last (str_nat ?n)" ?n]
      str_nat_nonempty [of ?n] by simp_all
  then have "strip (str_nat ?n) = str_nat ?n"
    using str_nat_nonempty [of ?n] by (intro strip_plain) simp_all
  with False show ?thesis by (simp add: str_int_def)
qed

lemma python_int_str_int:
  "length (str_int i) \<le> int_max_str_digits \<Longrightarrow> python_int (str_int i) = Inr i"
proof -
  assume len: "length (str_int i) \<le> int_max_str_digits"
  let ?b = "str_nat (nat \<bar>i\<bar>)"
  have "length ?b \<le> length (str_int i)"
    by (simp add: str_int_def abs_if)
  with len have "length (filter is_digit (takeWhile (\<lambda>c. is_digit c \<or> c = CHR ''_'') ?b))
      \<le> int_max_str_digits"
    by (meson le_trans length_filter_le length_takeWhile_le)
  then show ?thesis
    by (simp add: python_int_def strip_str_int unsigned_str_int signed_value_str_int Let_def)
qed


section \<open>Graph reads: properties\<close>

lemma read_nodes: "read_statement nodes_query = Q_nodes" by code_simp
lemma read_links: "read_statement links_query = Q_links" by code_simp
lemma read_search: "read_statement search_query = Q_search" by code_simp

lemma collect_map:
  "(\<And>x. x \<in> set xs \<Longrightarrow> f x = Inr (g x)) \<Longrightarrow> collect f xs = Inr (map g xs)"
  by (induction xs) simp_all

lemma node_view_row:
  "node_view (node_row n) = Inr [(''id'', VStr (str_int (node_id n))), (''name'', name n)]"
  by (simp add: node_view_def node_row_def item_def)

lemma link_view_row:
  "link_view (link_row s t ty) =
     Inr [(''source'', VStr (str_int s)), (''target'', VStr (str_int t)), (''type'', VStr ty)]"
  by (simp add: link_view_def link_row_def item_def)

lemma collect_node_rows:
  "collect node_view (map node_row ns) =
     Inr (map (\<lambda>n. [(''id'', VStr (str_int (node_id n))), (''name'', name n)]) ns)"
proof -
  have "collect node_view (map node_row ns) =
      Inr (map (\<lambda>r. [(''id'', VStr (py_str (the (map_of r ''id'')))), (''name'', the (map_of r ''name''))])
        (map node_row ns))"
    by (rule collect_map) (auto simp: node_view_def node_row_def item_def)
  then show ?thesis by (simp add: node_row_def comp_def)
qed

lemma session_run_fault:
  "pending_fault d = Some m \<Longrightarrow>
     session_run s params d = (Inl (Neo4jError m), d\<lparr>faults := tl (faults d)\<rparr>)"
  by (simp add: session_run_def)

lemma session_run_nodes:
  "pending_fault d = None \<Longrightarrow>
     session_run nodes_query params d =
       (Inr (map node_row (filter is_concept (store_nodes (content d)))),
        d\<lparr>faults := tl (faults d)\<rparr>)"
  by (simp add: session_run_def cypher_def read_nodes)

lemma session_run_links:
  "pending_fault d = None \<Longrightarrow>
     session_run links_query params d =
       (Inr (map (\<lambda>(a, e, b). link_row (node_id a) (node_id b) (edge_type e))
               (pattern_matches is_concept (content d))),
        d\<lparr>faults := tl (faults d)\<rparr>)"
  by (simp add: session_run_def cypher_def read_links)

lemma collect_link_rows:
  "collect link_view (map (\<lambda>(a, e, b). link_row (node_id a) (node_id b) (edge_type e)) ms) =
     Inr (map (\<lambda>(a, e, b).
            [(''source'', VStr (str_int (node_id a))), (''target'', VStr (str_int (node_id b))),
             (''type'', VStr (edge_type e))]) ms)"
  by (induction ms) (auto simp: link_view_row)

lemma pending_fault_tl [simp]: "pending_fault (d\<lparr>faults := fs\<rparr>) = (case fs of Some m # x \<Rightarrow> Some m | _ \<Rightarrow> None)"
  by (simp add: pending_fault_def)

lemma get_graph_body_result:
  "fst (get_graph_body d) =
     (case pending_fault d of
        Some m \<Rightarrow> Inl (Neo4jError m)
      | None \<Rightarrow>
          (case pending_fault (d\<lparr>faults := tl (faults d)\<rparr>) of
             Some m \<Rightarrow> Inl (Neo4jError m)
           | None \<Rightarrow>
               Inr \<lparr>nodes = snapshot_nodes (content d), links = snapshot_links (content d)\<rparr>))"
proof (cases "pending_fault d")
  case None
  note first = this
  let ?d1 = "d\<lparr>faults := tl (faults d)\<rparr>"
  show ?thesis
  proof (cases "pending_fault ?d1")
    case None
    have "session_run links_query [] ?d1 =
        (Inr (map (\<lambda>(a, e, b). link_row (node_id a) (node_id b) (edge_type e))
               (pattern_matches is_concept (content d))),
         ?d1\<lparr>faults := tl (faults ?d1)\<rparr>)"
      using session_run_links [OF None, of "[]"] by simp
    with first None show ?thesis
      by (simp add: get_graph_body_def session_run_nodes collect_node_rows collect_link_rows
          snapshot_nodes_def snapshot_links_def del: pending_fault_tl)
  next
    case (Some m)
    with first show ?thesis
      by (simp add: get_graph_body_def session_run_nodes collect_node_rows
          session_run_fault [OF Some] del: pending_fault_tl)
  qed
next
  case (Some m)
  then show ?thesis
    by (simp add: get_graph_body_def session_run_fault)
qed


lemma get_graph_data_result:
  "fst (get_graph_data d) =
     (case pending_fault d of
        Some m \<Rightarrow> Inl (HTTPException 500 (''Error fetching graph data: '' @ m))
      | None \<Rightarrow>
          (case pending_fault (d\<lparr>faults := tl (faults d)\<rparr>) of
             Some m \<Rightarrow> Inl (HTTPException 500 (''Error fetching graph data: '' @ m))
           | None \<Rightarrow>
               Inr \<lparr>nodes = snapshot_nodes (content d), links = snapshot_links (content d)\<rparr>))"
  by (simp add: get_graph_data_def case_prod_beta get_graph_body_result except_Exception_def
      del: pending_fault_tl split: option.splits)

text \<open>
  C6. Reading the graph gives either one error (status 500) or the complete snapshot:
  every Concept node and every link between Concept nodes. When the first query succeeds
  and the second one fails, the answer is the error alone.
\<close>

theorem get_graph_all_or_nothing:
  "((\<exists>m. fst (get_graph_data d) = Inl (HTTPException 500 m))
     \<or> fst (get_graph_data d) =
         Inr \<lparr>nodes = snapshot_nodes (content d), links = snapshot_links (content d)\<rparr>)
   \<and> (pending_fault d = None \<and> pending_fault (d\<lparr>faults := tl (faults d)\<rparr>) = Some m \<longrightarrow>
       fst (get_graph_data d) = Inl (HTTPException 500 (''Error fetching graph data: '' @ m)))"
  by (simp add: get_graph_data_result del: pending_fault_tl split: option.splits)

lemma sample_snapshot:
  "snapshot_nodes sample_graph =
     [[(''id'', VStr ''3''), (''name'', VStr ''Physics'')],
      [(''id'', VStr ''7''), (''name'', VStr ''Chemistry'')]]
   \<and> snapshot_links sample_graph =
     [[(''source'', VStr ''3''), (''target'', VStr ''7''), (''type'', VStr ''RELATED_TO'')]]"
  by code_simp

theorem get_graph_all_or_nothing_witness:
  "fst (get_graph_data flaky_db) =
     Inl (HTTPException 500 ''Error fetching graph data: connection reset'')"
  using get_graph_all_or_nothing [of flaky_db "''connection reset''"]
  by (simp add: flaky_db_def sample_db_def pending_fault_def)

text \<open>
  C8. In a successful answer the ids of the nodes, and the sources and targets of the
  links, are strings, one for each row of the store and in its order: the decimal string
  of the store's integer id. The reader of \<open>int\<close> gives the id back from it, and
  \<open>int\<close> itself does for every string within its limit of 4300 digits.
\<close>

theorem graph_ids_are_decimal_strings:
  "fst (get_graph_data d) = Inr g \<Longrightarrow>
     map (\<lambda>n. map_of n ''id'') (nodes g) =
       map (\<lambda>n. Some (VStr (str_int (node_id n)))) (filter is_concept (store_nodes (content d)))
     \<and> map (\<lambda>l. (map_of l ''source'', map_of l ''target'')) (links g) =
       map (\<lambda>(a, e, b). (Some (VStr (str_int (node_id a))), Some (VStr (str_int (node_id b)))))
         (pattern_matches is_concept (content d))
     \<and> (\<forall>n \<in> set (nodes g). \<exists>i. map_of n ''id'' = Some (VStr (str_int i))
           \<and> signed_value (str_int i) = Some i
           \<and> (length (str_int i) \<le> int_max_str_digits \<longrightarrow> python_int (str_int i) = Inr i))
     \<and> (\<forall>l \<in> set (links g). \<exists>s t.
           map_of l ''source'' = Some (VStr (str_int s)) \<and> signed_value (str_int s) = Some s
           \<and> (length (str_int s) \<le> int_max_str_digits \<longrightarrow> python_int (str_int s) = Inr s)
           \<and> map_of l ''target'' = Some (VStr (str_int t)) \<and> signed_value (str_int t) = Some t
           \<and> (length (str_int t) \<le> int_max_str_digits \<longrightarrow> python_int (str_int t) = Inr t))"
proof -
  assume "fst (get_graph_data d) = Inr g"
  then have g: "g = \<lparr>nodes = snapshot_nodes (content d), links = snapshot_links (content d)\<rparr>"
    by (simp add: get_graph_data_result del: pending_fault_tl split: option.splits)
  show ?thesis
    by (auto simp: g snapshot_nodes_def snapshot_links_def comp_def python_int_str_int
        signed_value_str_int case_prod_beta)
qed

theorem graph_ids_are_decimal_strings_witness:
  "fst (get_graph_data sample_db) =
     Inr \<lparr>nodes = [[(''id'', VStr ''3''), (''name'', VStr ''Physics'')],
                  [(''id'', VStr ''7''), (''name'', VStr ''Chemistry'')]],
          links = [[(''source'', VStr ''3''), (''target'', VStr ''7''),
                    (''type'', VStr ''RELATED_TO'')]]\<rparr>
   \<and> map (\<lambda>n. map_of n ''id'')
       [[(''id'', VStr ''3''), (''name'', VStr ''Physics'')],
        [(''id'', VStr ''7''), (''name'', VStr ''Chemistry'')]] =
     map (\<lambda>n. Some (VStr (str_int (node_id n))))
       (filter is_concept (store_nodes (content sample_db)))"
proof -
  have r: "fst (get_graph_data sample_db) =
     Inr \<lparr>nodes = [[(''id'', VStr ''3''), (''name'', VStr ''Physics'')],
                  [(''id'', VStr ''7''), (''name'', VStr ''Chemistry'')]],
          links = [[(''source'', VStr ''3''), (''target'', VStr ''7''),
                    (''type'', VStr ''RELATED_TO'')]]\<rparr>"
    using sample_snapshot
    by (simp add: get_graph_data_result sample_db_def pending_fault_def)
  from graph_ids_are_decimal_strings [OF r] r show ?thesis by simp
qed








lemma session_run_search:
  "pending_fault d = None \<Longrightarrow>
     session_run search_query [(''query'', VStr q)] d =
       (Inr (take 10 (map node_row
          (filter (\<lambda>n. is_concept n \<and> contains (name n) (VStr q)) (store_nodes (content d))))),
        d\<lparr>faults := tl (faults d)\<rparr>)"
  by (simp add: session_run_def cypher_def read_search)

lemma search_concepts_result:
  "fst (search_concepts q d) =
     (if q = [] then Inl (RequestValidationError ''String should have at least 1 character'')
      else (case pending_fault d of
              Some m \<Rightarrow> Inl (HTTPException 500 (''Error searching concepts: '' @ m))
            | None \<Rightarrow>
                Inr (map (\<lambda>n. [(''id'', VStr (str_int (node_id n))), (''name'', name n)])
                  (take 10 (filter (\<lambda>n. is_concept n \<and> contains (name n) (VStr q))
                     (store_nodes (content d)))))))"
proof (cases "pending_fault d")
  case None
  then show ?thesis
    by (simp add: search_concepts_def search_concepts_body_def session_run_search
        except_Exception_def take_map collect_node_rows)
next
  case (Some m)
  then show ?thesis
    by (simp add: search_concepts_def search_concepts_body_def session_run_fault
        except_Exception_def)
qed

lemma contains_name: "contains v (VStr q) \<Longrightarrow> \<exists>nm. v = VStr nm \<and> sublist q nm"
  by (cases v) simp_all

text \<open>
  C4. A search with the empty query is refused with status 422 before the store is asked.
  A search with a non-empty query either fails with the store (status 500) or returns at
  most ten results, each with a string name that contains the query.
\<close>

theorem search_concepts_bounds:
  "(q = [] \<longrightarrow>
      (\<exists>e. fst (search_concepts q d) = Inl e \<and> status_code e = 422)
      \<and> snd (search_concepts q d) = d)
   \<and> (q \<noteq> [] \<longrightarrow>
      (\<exists>m. fst (search_concepts q d) = Inl (HTTPException 500 m) \<and> pending_fault d \<noteq> None)
      \<or> (\<exists>rs. fst (search_concepts q d) = Inr rs \<and> length rs \<le> 10
            \<and> (\<forall>r \<in> set rs. \<exists>nm. map_of r ''name'' = Some (VStr nm) \<and> sublist q nm)))"
proof (cases "q = []")
  case True
  have "snd (search_concepts [] d) = d" by (simp add: search_concepts_def)
  with True show ?thesis by (simp add: search_concepts_result)
next
  case False
  show ?thesis
  proof (cases "pending_fault d")
    case None
    have "\<exists>nm. name n = VStr nm \<and> sublist q nm"
      if "n \<in> set (take 10 (filter (\<lambda>n. is_concept n \<and> contains (name n) (VStr q))
                     (store_nodes (content d))))" for n
    proof -
      from that have "contains (name n) (VStr q)"
        by (auto dest: in_set_takeD)
      then show ?thesis by (rule contains_name)
    qed
    with False None show ?thesis
      by (auto simp: search_concepts_result)
  next
    case (Some m)
    with False show ?thesis by (simp add: search_concepts_result)
  qed
qed

theorem search_concepts_bounds_witness:
  "fst (search_concepts ''hys'' sample_db) = Inr [[(''id'', VStr ''3''), (''name'', VStr ''Physics'')]]
   \<and> fst (search_concepts [] sample_db) =
       Inl (RequestValidationError ''String should have at least 1 character'')
   \<and> snd (search_concepts [] sample_db) = sample_db"
proof -
  have "fst (search_concepts ''hys'' sample_db) =
      Inr [[(''id'', VStr ''3''), (''name'', VStr ''Physics'')]]"
    by (simp add: search_concepts_result sample_db_def pending_fault_def sample_graph_def
        is_concept_def sublist_Cons_right) code_simp
  with search_concepts_bounds [of "[]" sample_db] search_concepts_bounds [of "''hys''" sample_db]
  show ?thesis by (simp add: search_concepts_result)
qed

section \<open>Creating a relationship: properties\<close>

lemma digit_val_underscore: "digit_val CHR ''_'' = None"
  by (simp add: digit_val_def)

lemma split_on_nonempty: "split_on sep cs \<noteq> []"
  by (induction cs) (auto split: list.splits)

lemma digit_run_groups:
  "(digit_run a cs \<noteq> None) =
     (case split_on CHR ''_'' cs of
        [] \<Rightarrow> False
      | g # gs \<Rightarrow> (\<forall>c \<in> set g. is_digit c) \<and> (\<forall>g \<in> set gs. g \<noteq> [] \<and> (\<forall>c \<in> set g. is_digit c)))"
proof (induction a cs rule: digit_run.induct)
  case (1 a)
  then show ?case by simp
next
  case (2 a c)
  then show ?case
    by (auto simp: is_digit_def digit_val_underscore split: option.splits)
next
  case (3 a c d cs)
  show ?case
  proof (cases "c = CHR ''_''")
    case True
    note c = this
    show ?thesis
    proof (cases "digit_val d")
      case None
      then show ?thesis
        using c split_on_nonempty [of "CHR ''_''" cs]
        by (auto simp: is_digit_def split: list.splits)
    next
      case (Some v)
      then have "d \<noteq> CHR ''_''" using digit_val_underscore by auto
      with 3(1) [OF c Some] c Some show ?thesis
        using split_on_nonempty [of "CHR ''_''" cs]
        by (auto simp: is_digit_def split: list.splits)
    qed
  next
    case False
    note c = this
    show ?thesis
    proof (cases "digit_val c")
      case None
      then show ?thesis
        using c split_on_nonempty [of "CHR ''_''" "d # cs"]
        by (auto simp: is_digit_def split: list.splits)
    next
      case (Some v)
      with 3(2) [OF c Some] c show ?thesis
        using split_on_nonempty [of "CHR ''_''" "d # cs"]
        by (auto simp: is_digit_def split: list.splits if_splits)
    qed
  qed
qed

lemma digits_value_groups:
  "(digits_value b \<noteq> None) =
     (\<forall>g \<in> set (split_on CHR ''_'' b). g \<noteq> [] \<and> (\<forall>c \<in> set g. is_digit c))"
proof (cases b)
  case Nil
  then show ?thesis by (simp add: digits_value_def)
next
  case (Cons c cs)
  show ?thesis
  proof (cases "digit_val c")
    case None
    then show ?thesis
      using Cons split_on_nonempty [of "CHR ''_''" cs]
      by (auto simp: digits_value_def is_digit_def split: list.splits)
  next
    case (Some v)
    then have "c \<noteq> CHR ''_''" using digit_val_underscore by auto
    with Some Cons digit_run_groups [of v cs] show ?thesis
      using split_on_nonempty [of "CHR ''_''" cs]
      by (auto simp: digits_value_def is_digit_def split: list.splits)
  qed
qed

lemma digit_run_chars:
  "digit_run a cs \<noteq> None \<Longrightarrow> \<forall>c \<in> set cs. is_digit c \<or> c = CHR ''_''"
  by (induction a cs rule: digit_run.induct)
    (auto simp: is_digit_def split: option.splits if_splits)

lemma digits_value_run:
  "digits_value b \<noteq> None \<Longrightarrow> takeWhile (\<lambda>c. is_digit c \<or> c = CHR ''_'') b = b"
proof -
  assume v: "digits_value b \<noteq> None"
  have "\<forall>c \<in> set b. is_digit c \<or> c = CHR ''_''"
  proof (cases b)
    case Nil
    then show ?thesis by simp
  next
    case (Cons c cs)
    with v obtain n where "digit_val c = Some n" "digit_run n cs \<noteq> None"
      by (auto simp: digits_value_def split: option.splits)
    with Cons digit_run_chars [of n cs] show ?thesis
      by (auto simp: is_digit_def)
  qed
  then show ?thesis by (simp add: takeWhile_eq_all_conv)
qed

lemma signed_unsigned: "(signed_value t = None) = (digits_value (unsigned t) = None)"
  by (cases t) (auto simp: signed_value_def unsigned_def digits_value_def)

lemma python_int_rejects: "isl (python_int s) = (\<not> int_literal s)"
proof (cases "digits_value (unsigned (strip s))")
  case None
  then have "signed_value (strip s) = None" by (simp add: signed_unsigned)
  moreover have "\<not> int_literal s"
    using None digits_value_groups [of "unsigned (strip s)"]
    by (simp add: int_literal_def Let_def)
  ultimately show ?thesis
    by (simp add: python_int_def Let_def)
next
  case (Some n)
  let ?b = "unsigned (strip s)"
  from Some have v: "digits_value ?b \<noteq> None" by simp
  then obtain i where sv: "signed_value (strip s) = Some i"
    using signed_unsigned [of "strip s"] by (cases "signed_value (strip s)") simp_all
  have run: "takeWhile (\<lambda>c. is_digit c \<or> c = CHR ''_'') ?b = ?b"
    using v by (rule digits_value_run)
  have p: "isl (python_int s) = (int_max_str_digits < length (filter is_digit ?b))"
    by (simp add: python_int_def Let_def run v sv)
  have "\<forall>g \<in> set (split_on CHR ''_'' ?b). g \<noteq> [] \<and> (\<forall>c \<in> set g. is_digit c)"
    using v digits_value_groups [of ?b] by simp
  then have "int_literal s = (length (filter is_digit ?b) \<le> int_max_str_digits)"
    by (simp add: int_literal_def Let_def)
  with p show ?thesis by (simp add: not_le)
qed

text \<open>
  C10, as stated, covers every source or target that is not a decimal integer. The
  source \<open>0_3\<close> is not one, yet \<open>int\<close> reads it as 3: the statement is run, the edge
  from 3 to 7 is created and the call returns the success response.
\<close>

theorem underscored_source_creates_edge:
  "\<not> decimal_integer (source underscored_source)
   \<and> fst (create_relationship underscored_source sample_db) =
       Inr [(''source'', VStr ''3''), (''target'', VStr ''7''), (''type'', VStr ''RELATED_TO'')]
   \<and> store_edges (content (snd (create_relationship underscored_source sample_db))) =
       store_edges sample_graph
         @ [\<lparr>edge_source = 3, edge_target = 7, edge_type = ''RELATED_TO''\<rparr>]"
  by code_simp

text \<open>
  C10, amended. When the source or the target of a request is a string that \<open>int\<close>
  rejects (once blanks at both ends and one sign are taken away it is not made of groups
  of digits joined by single underscores, or it has more than 4300 digits), the call
  fails with status 500 and the database is as it was: no statement was run, no edge was
  created, and no success response is returned.
\<close>

theorem int_rejected_endpoint_fails:
  "\<not> int_literal (source r) \<or> \<not> int_literal (target r) \<Longrightarrow>
     (\<exists>m. fst (create_relationship r d) = Inl (HTTPException 500 m))
     \<and> snd (create_relationship r d) = d"
proof -
  assume "\<not> int_literal (source r) \<or> \<not> int_literal (target r)"
  then have "isl (python_int (source r)) \<or> isl (python_int (target r))"
    by (simp add: python_int_rejects)
  then show ?thesis
    by (auto simp: create_relationship_def create_relationship_body_def except_Exception_def
        isl_def split: sum.splits)
qed

lemma abc_rejected: "\<not> int_literal ''abc''"
  by code_simp

theorem int_rejected_endpoint_fails_witness:
  "\<not> int_literal (source not_a_number)
   \<and> snd (create_relationship not_a_number sample_db) = sample_db"
  using int_rejected_endpoint_fails [of not_a_number sample_db] abc_rejected
  by (simp add: not_a_number_def)

text \<open>A run of digits is accepted exactly up to the limit.\<close>

lemma digit_runs_limit:
  "int_literal (replicate (Suc n) CHR ''1'') = (Suc n \<le> int_max_str_digits)"
proof -
  have d: "is_digit CHR ''1''" "\<not> is_space CHR ''1''" "CHR ''1'' \<noteq> CHR ''_''"
    by (simp_all add: is_digit_def digit_val_def is_space_def)
  have s: "strip (replicate (Suc n) CHR ''1'') = replicate (Suc n) CHR ''1''"
    using d by (intro strip_plain) (simp_all del: replicate_Suc)
  have u: "unsigned (replicate (Suc n) CHR ''1'') = replicate (Suc n) CHR ''1''"
    by (simp add: unsigned_def)
  have g: "split_on CHR ''_'' (replicate (Suc k) CHR ''1'') = [replicate (Suc k) CHR ''1'']" for k
    by (induction k) simp_all
  show ?thesis
    using d by (simp add: int_literal_def s u g del: replicate_Suc)
qed

text \<open>
  C1. The request names a target id that no Concept has. No edge is created, but the 404
  raised for the empty result is caught by the handler's own \<open>except Exception\<close>, and
  the caller is answered with status 500.
\<close>

theorem missing_endpoint_answers_500:
  "fst (create_relationship missing_target sample_db) =
     Inl (HTTPException 500 ''Error creating relationship: 404: Concepts not found'')
   \<and> content (snd (create_relationship missing_target sample_db)) = sample_graph"
  by code_simp

text \<open>
  C2. The type of the request is spliced into the statement as it is. A type with a
  backtick ends the quoted name early: the store reads the edge type \<open>R\<close>, the rest of
  the value becomes statement text, and the statement is no longer the creation of one
  edge.
\<close>

theorem crafted_type_changes_statement:
  "format1 create_template (type crafted_type) =
     create_head @ ''R`]->(b) DETACH DELETE a //`'' @ create_tail
   \<and> edge_type_token (format1 create_template (type crafted_type)) = Some ''R''
   \<and> read_statement (format1 create_template (type crafted_type)) = Q_other
   \<and> fst (create_relationship crafted_type sample_db) =
       Inl (HTTPException 500 ''Error creating relationship: Invalid input'')"
  by code_simp

text \<open>
  A type without a backtick is read back as it was given; with such a type and ids that
  match no pair of Concept nodes the answer is always the 500 above; and what the crafted
  request does to the graph is whatever the store does with the changed statement.
\<close>

lemma format1_create: "format1 create_template ty = create_head @ ty @ CHR 0x60 # create_tail"
  by (simp add: create_template_def block_def create_head_def create_tail_def numeral_eq_Suc)

lemma strip_prefix_append: "strip_prefix p (p @ r) = Some r"
  by (induction p) simp_all

lemma quoted_name_plain:
  "CHR 0x60 \<notin> set ty \<Longrightarrow> r \<noteq> [] \<Longrightarrow> hd r \<noteq> CHR 0x60 \<Longrightarrow>
     quoted_name (ty @ CHR 0x60 # r) = Some (ty, r)"
proof (induction ty)
  case Nil
  then show ?case by (cases r) simp_all
next
  case (Cons c cs)
  then show ?case by (cases cs) (auto simp: neq_Nil_conv)
qed

lemma create_tail_head: "create_tail \<noteq> [] \<and> hd create_tail \<noteq> CHR 0x60"
  by (simp add: create_tail_def)

lemma create_head_other:
  "create_head @ r \<noteq> nodes_query" "create_head @ r \<noteq> links_query"
  "create_head @ r \<noteq> search_query" "create_head @ r \<noteq> count_concepts_query"
  "create_head @ r \<noteq> count_relationships_query"
  by (simp_all add: create_head_def nodes_query_def links_query_def search_query_def
      count_concepts_query_def count_relationships_query_def block_def numeral_eq_Suc)

lemma plain_type_reads_back:
  "CHR 0x60 \<notin> set ty \<Longrightarrow> read_statement (format1 create_template ty) = Q_create ty"
  using create_tail_head
  by (simp add: read_statement_def format1_create create_head_other strip_prefix_append
      quoted_name_plain)


lemma str_int_404: "str_int 404 = ''404''" by code_simp

lemma session_run_create:
  "pending_fault d = None \<Longrightarrow> CHR 0x60 \<notin> set ty \<Longrightarrow> ty \<noteq> [] \<Longrightarrow> CHR 0x00 \<notin> set ty \<Longrightarrow>
     session_run (format1 create_template ty) [(''source'', sv), (''target'', tv)] d =
       (Inr (map (\<lambda>(a, b). link_row (node_id a) (node_id b) ty) (endpoint_pairs sv tv (content d))),
        d\<lparr>content := (content d)\<lparr>store_edges := store_edges (content d)
              @ map (\<lambda>(a, b). \<lparr>edge_source = node_id a, edge_target = node_id b, edge_type = ty\<rparr>)
                  (endpoint_pairs sv tv (content d))\<rparr>,
          faults := tl (faults d)\<rparr>)"
  by (simp add: session_run_def cypher_def plain_type_reads_back)

lemma missing_endpoint_general:
  assumes "pending_fault d = None"
    and "python_int (source r) = Inr s" and "python_int (target r) = Inr t"
    and "CHR 0x60 \<notin> set (type r)" and "type r \<noteq> []" and "CHR 0x00 \<notin> set (type r)"
    and "endpoint_pairs (VInt s) (VInt t) (content d) = []"
  shows "fst (create_relationship r d) =
      Inl (HTTPException 500 ''Error creating relationship: 404: Concepts not found'')
    \<and> content (snd (create_relationship r d)) = content d"
  using assms
  by (simp add: create_relationship_def create_relationship_body_def session_run_create
      single_def except_Exception_def str_int_404)

lemma crafted_type_reaches_store:
  assumes "pending_fault d = None"
  shows "content (snd (create_relationship crafted_type d)) =
     snd (other_cypher d (format1 create_template (type crafted_type))
            [(''source'', VInt 3), (''target'', VInt 7)] (content d))"
proof -
  have r: "read_statement (format1 create_template (type crafted_type)) = Q_other"
    by code_simp
  have s: "python_int (source crafted_type) = Inr 3" by code_simp
  have t: "python_int (target crafted_type) = Inr 7" by code_simp
  show ?thesis
    using assms
    by (simp add: create_relationship_def create_relationship_body_def session_run_def
        cypher_def r s t case_prod_beta split: sum.splits option.splits)
qed

end
